theory Spec2Isabelle
  imports Complex_Main
begin

section \<open>The payment page's amount calculator\<close>

text \<open>
  The component \<open>PaymentPage\<close> keeps five pieces of React state (base amount as a number
  and as text, the selected preset percentage, the custom tip as text and as displayed
  text) and changes them in five event handlers. Each handler is embedded as a function
  from the state before the event to the state after it: a handler reads the values of
  the render it was created in and its \<open>set...\<close> calls take effect together afterwards,
  and no handler reads a value it has just set.

  JavaScript numbers are modelled by their mathematical value: a number is \<open>NaN\<close>, one
  of the two infinities, or an exact rational. Rounding to the nearest double, overflow
  to \<open>Infinity\<close>, the sign of zero and the exponent notation \<open>toFixed\<close> switches to at
  \<open>10^21\<close> are not modelled: a text typed into the page and the text shown for it agree
  with the code for amounts below \<open>2^46\<close>, where a double is within half a cent of the
  decimal it stands for. A string is a list of characters with codes below 256;
  the code units above that a JavaScript string can hold are not modelled (the handlers
  strip them from their input with every other character that is not a digit or a
  point).
\<close>

subsection \<open>Numbers\<close>

datatype jsnum = NaN | PInf | NInf | Fin rat

definition isNaN :: "jsnum \<Rightarrow> bool" where
  "isNaN x = (x = NaN)"

text \<open>\<open>x < y\<close>, \<open>x >= y\<close> and \<open>x === y\<close> on numbers: every comparison with \<open>NaN\<close> is false.\<close>

fun js_lt :: "jsnum \<Rightarrow> jsnum \<Rightarrow> bool" where
  "js_lt NaN _ = False"
| "js_lt _ NaN = False"
| "js_lt (Fin a) (Fin b) = (a < b)"
| "js_lt NInf NInf = False"
| "js_lt NInf _ = True"
| "js_lt _ NInf = False"
| "js_lt PInf _ = False"
| "js_lt _ PInf = True"

fun js_ge :: "jsnum \<Rightarrow> jsnum \<Rightarrow> bool" where
  "js_ge NaN _ = False"
| "js_ge _ NaN = False"
| "js_ge x y = (\<not> js_lt x y)"

fun js_eq :: "jsnum \<Rightarrow> jsnum \<Rightarrow> bool" where
  "js_eq NaN _ = False"
| "js_eq _ NaN = False"
| "js_eq x y = (x = y)"

fun js_add :: "jsnum \<Rightarrow> jsnum \<Rightarrow> jsnum" where
  "js_add NaN _ = NaN"
| "js_add _ NaN = NaN"
| "js_add (Fin a) (Fin b) = Fin (a + b)"
| "js_add PInf NInf = NaN"
| "js_add NInf PInf = NaN"
| "js_add PInf _ = PInf"
| "js_add NInf _ = NInf"
| "js_add _ PInf = PInf"
| "js_add _ NInf = NInf"

text \<open>The sign of a product or quotient with an infinite operand.\<close>

definition signed_inf :: "bool \<Rightarrow> jsnum" where
  "signed_inf neg = (if neg then NInf else PInf)"

fun is_neg :: "jsnum \<Rightarrow> bool" where
  "is_neg NInf = True"
| "is_neg (Fin a) = (a < 0)"
| "is_neg _ = False"

fun js_mul :: "jsnum \<Rightarrow> jsnum \<Rightarrow> jsnum" where
  "js_mul NaN _ = NaN"
| "js_mul _ NaN = NaN"
| "js_mul (Fin a) (Fin b) = Fin (a * b)"
| "js_mul (Fin a) y = (if a = 0 then NaN else signed_inf (is_neg (Fin a) \<noteq> is_neg y))"
| "js_mul x (Fin b) = (if b = 0 then NaN else signed_inf (is_neg x \<noteq> is_neg (Fin b)))"
| "js_mul x y = signed_inf (is_neg x \<noteq> is_neg y)"

fun js_div :: "jsnum \<Rightarrow> jsnum \<Rightarrow> jsnum" where
  "js_div NaN _ = NaN"
| "js_div _ NaN = NaN"
| "js_div (Fin a) (Fin b) =
     (if b \<noteq> 0 then Fin (a / b)
      else if a = 0 then NaN else signed_inf (a < 0))"
| "js_div (Fin a) _ = Fin 0"
| "js_div x (Fin b) = signed_inf (is_neg x \<noteq> is_neg (Fin b))"
| "js_div _ _ = NaN"

subsection \<open>Characters and digit strings\<close>

text \<open>The class \<open>[0-9]\<close> (and \<open>\d\<close>): the character codes 48 to 57.\<close>

definition isDigit :: "char \<Rightarrow> bool" where
  "isDigit c = (48 \<le> (of_char c :: nat) \<and> (of_char c :: nat) \<le> 57)"

definition digitVal :: "char \<Rightarrow> nat" where
  "digitVal c = of_char c - 48"

definition digitChar :: "nat \<Rightarrow> char" where
  "digitChar d = char_of (48 + d)"

text \<open>The value of a string of decimal digits, most significant digit first.\<close>

definition digitsVal :: "string \<Rightarrow> nat" where
  "digitsVal ds = foldl (\<lambda>a c. 10 * a + digitVal c) 0 ds"

text \<open>The decimal digits of a natural number, without leading zeros (\<open>0\<close> is \<open>''0''\<close>).\<close>

fun natToString :: "nat \<Rightarrow> string" where
  "natToString n =
     (if n < 10 then [digitChar n] else natToString (n div 10) @ [digitChar (n mod 10)])"

declare natToString.simps [simp del]

text \<open>
  The white space \<open>parseFloat\<close> skips, as far as it fits in a character: TAB, LF, VT,
  FF, CR, SP and NBSP.
\<close>

definition isWhiteSpace :: "char \<Rightarrow> bool" where
  "isWhiteSpace c = (of_char c \<in> {9, 10, 11, 12, 13, 32, 160 :: nat})"

subsection \<open>\<open>parseFloat\<close>\<close>

text \<open>
  An exponent part \<open>e\<close> or \<open>E\<close>, an optional sign and at least one digit, at the start
  of the rest of the string; the factor is \<open>1\<close> when there is none.
\<close>

definition exponentPart :: "string \<Rightarrow> rat" where
  "exponentPart r =
     (case r of
        [] \<Rightarrow> 1
      | c # r' \<Rightarrow>
          if c = CHR ''e'' \<or> c = CHR ''E'' then
            (let neg = (r' \<noteq> [] \<and> hd r' = CHR ''-'');
                 r'' = (if r' \<noteq> [] \<and> (hd r' = CHR ''-'' \<or> hd r' = CHR ''+'') then tl r' else r');
                 ds = takeWhile isDigit r''
             in if ds = [] then 1
                else if neg then 1 / 10 ^ digitsVal ds else 10 ^ digitsVal ds)
          else 1)"

text \<open>
  The longest prefix that is an unsigned decimal literal: digits, optionally a point and
  more digits, optionally an exponent; or a point followed by digits. \<open>None\<close> when no
  prefix is one.
\<close>

definition unsignedDecimal :: "string \<Rightarrow> rat option" where
  "unsignedDecimal u =
     (let ip = takeWhile isDigit u;
          r1 = dropWhile isDigit u;
          hasDot = (r1 \<noteq> [] \<and> hd r1 = CHR ''.'');
          fp = (if hasDot then takeWhile isDigit (tl r1) else []);
          r2 = (if hasDot then dropWhile isDigit (tl r1) else r1)
      in if ip = [] \<and> fp = [] then None
         else Some ((of_nat (digitsVal ip) + of_nat (digitsVal fp) / 10 ^ length fp)
                    * exponentPart r2))"

definition parseFloat :: "string \<Rightarrow> jsnum" where
  "parseFloat s =
     (let t = dropWhile isWhiteSpace s;
          neg = (t \<noteq> [] \<and> hd t = CHR ''-'');
          u = (if t \<noteq> [] \<and> (hd t = CHR ''-'' \<or> hd t = CHR ''+'') then tl t else t)
      in if take 8 u = ''Infinity'' then signed_inf neg
         else case unsignedDecimal u of
                None \<Rightarrow> NaN
              | Some q \<Rightarrow> Fin (if neg then - q else q))"

subsection \<open>\<open>toFixed(2)\<close>\<close>

text \<open>
  \<open>x.toFixed(2)\<close>: the integer \<open>n\<close> with \<open>n / 100\<close> nearest to \<open>x\<close> (the larger one of
  two), its digits padded with zeros to three at least, and a point before the last two.
\<close>

definition toFixed2 :: "jsnum \<Rightarrow> string" where
  "toFixed2 x =
     (case x of
        NaN \<Rightarrow> ''NaN''
      | PInf \<Rightarrow> ''Infinity''
      | NInf \<Rightarrow> ''-Infinity''
      | Fin q \<Rightarrow>
          (let s = (if q < 0 then ''-'' else '''');
               n = nat \<lfloor>\<bar>q\<bar> * 100 + 1 / 2\<rfloor>;
               m = natToString n;
               m' = replicate (3 - length m) CHR ''0'' @ m;
               k = length m'
           in s @ take (k - 2) m' @ ''.'' @ drop (k - 2) m'))"

subsection \<open>The component's state\<close>

record state =
  baseAmount :: jsnum
  baseAmountInput :: string
  selectedTip :: jsnum
  customTip :: string
  customTipDisplay :: string

definition initialState :: state where
  "initialState =
     \<lparr> baseAmount = Fin 200, baseAmountInput = ''200.00'', selectedTip = Fin 0,
       customTip = '''', customTipDisplay = '''' \<rparr>"

definition tipPercentages :: "jsnum list" where
  "tipPercentages = [Fin 10, Fin 15, Fin 20]"

text \<open>\<open>value.replace(/[^0-9.]/g, '')\<close>\<close>

definition stripNonNumeric :: "string \<Rightarrow> string" where
  "stripNonNumeric v = filter (\<lambda>c. isDigit c \<or> c = CHR ''.'') v"

text \<open>
  \<open>/^\d*\.?\d{0,2}$/.test(s)\<close>: digits, at most one point, at most two digits, and
  nothing else. After the longest run of digits the rest must be an optional point and
  at most two digits; a shorter run of digits matches only when the longest does.
\<close>

definition amountPattern :: "string \<Rightarrow> bool" where
  "amountPattern s =
     (let r = dropWhile isDigit s;
          r' = (if r \<noteq> [] \<and> hd r = CHR ''.'' then tl r else r)
      in length r' \<le> 2 \<and> list_all isDigit r')"

subsection \<open>The handlers\<close>

text \<open>
  The functions that follow keep the names and the branch order of the source. A string
  used as a condition (\<open>if (customTip)\<close>, \<open>numericValue ? ... : ...\<close>) is true when it is
  not empty. The specification calls \<open>handleBaseAmountChange\<close> \<open>setBaseAmountText\<close>,
  \<open>handleBaseAmountBlur\<close> \<open>commitBaseAmount\<close>, \<open>handleTipSelect\<close> \<open>selectPresetTip\<close>,
  \<open>handleCustomTipChange\<close> \<open>setCustomTipText\<close>, \<open>handleCustomTipBlur\<close>
  \<open>commitCustomTip\<close> and \<open>isValidPayment\<close> \<open>isPayable\<close>.
\<close>

text \<open>\<open>(baseAmount * percentage) / 100\<close>\<close>

definition calculateTipAmount :: "state \<Rightarrow> jsnum \<Rightarrow> jsnum" where
  "calculateTipAmount s percentage = js_div (js_mul (baseAmount s) percentage) (Fin 100)"

definition getTotalAmount :: "state \<Rightarrow> jsnum" where
  "getTotalAmount s =
     (if customTip s \<noteq> '''' then js_add (baseAmount s) (parseFloat (customTip s))
      else js_add (baseAmount s) (calculateTipAmount s (selectedTip s)))"

text \<open>
  Selecting the selected percentage again (\<open>selectedTip === percentage\<close>) sets the
  selection to 0; the custom tip and its displayed text are emptied either way.
\<close>

definition handleTipSelect :: "jsnum \<Rightarrow> state \<Rightarrow> state" where
  "handleTipSelect percentage s =
     s\<lparr> selectedTip := (if js_eq (selectedTip s) percentage then Fin 0 else percentage),
        customTip := '''',
        customTipDisplay := '''' \<rparr>"

text \<open>
  A text that passes the filter is displayed behind a dollar sign. It becomes the custom
  tip when it parses to at least 1; the empty text empties the custom tip; both set the
  selection to 0. Any other accepted text changes the displayed text only.
\<close>

definition handleCustomTipChange :: "string \<Rightarrow> state \<Rightarrow> state" where
  "handleCustomTipChange v s =
     (let numericValue = stripNonNumeric v in
      if numericValue = '''' \<or> amountPattern numericValue then
        (let s1 = s\<lparr> customTipDisplay :=
                       (if numericValue \<noteq> '''' then CHR ''$'' # numericValue else '''') \<rparr>;
             parsedValue = parseFloat numericValue
         in if \<not> isNaN parsedValue \<and> js_ge parsedValue (Fin 1) then
              s1\<lparr> customTip := numericValue, selectedTip := Fin 0 \<rparr>
            else if numericValue = '''' then
              s1\<lparr> customTip := '''', selectedTip := Fin 0 \<rparr>
            else s1)
      else s)"

text \<open>The blur handler of the custom tip field looks at \<open>customTip\<close>, not at the displayed text.\<close>

definition handleCustomTipBlur :: "state \<Rightarrow> state" where
  "handleCustomTipBlur s =
     (if customTip s \<noteq> '''' then
        (let parsedValue = parseFloat (customTip s) in
         if js_lt parsedValue (Fin 1) then
           s\<lparr> customTip := ''1.00'', customTipDisplay := ''$1.00'' \<rparr>
         else
           (let formatted = toFixed2 parsedValue in
            s\<lparr> customTip := formatted, customTipDisplay := CHR ''$'' # formatted \<rparr>))
      else s\<lparr> customTipDisplay := '''' \<rparr>)"

text \<open>
  An accepted text becomes the text of the base amount. The number follows when the text
  parses, and is 0 for the empty text; otherwise (a lone point) the number is left as it
  was.
\<close>

definition handleBaseAmountChange :: "string \<Rightarrow> state \<Rightarrow> state" where
  "handleBaseAmountChange v s =
     (let numericValue = stripNonNumeric v in
      if numericValue = '''' \<or> amountPattern numericValue then
        (let s1 = s\<lparr> baseAmountInput := numericValue \<rparr> in
         if numericValue \<noteq> '''' \<and> \<not> isNaN (parseFloat numericValue) then
           s1\<lparr> baseAmount := parseFloat numericValue \<rparr>
         else if numericValue = '''' then
           s1\<lparr> baseAmount := Fin 0 \<rparr>
         else s1)
      else s)"

text \<open>The blur handler of the base amount field parses the text of the field.\<close>

definition handleBaseAmountBlur :: "state \<Rightarrow> state" where
  "handleBaseAmountBlur s =
     (if baseAmountInput s = '''' \<or> isNaN (parseFloat (baseAmountInput s)) then
        s\<lparr> baseAmountInput := ''1.00'', baseAmount := Fin 1 \<rparr>
      else
        (let parsedValue = parseFloat (baseAmountInput s) in
         if js_lt parsedValue (Fin 1) then
           s\<lparr> baseAmountInput := ''1.00'', baseAmount := Fin 1 \<rparr>
         else
           (let formatted = toFixed2 parsedValue in
            s\<lparr> baseAmountInput := formatted, baseAmount := parseFloat formatted \<rparr>)))"

definition isValidPayment :: "state \<Rightarrow> bool" where
  "isValidPayment s = js_ge (baseAmount s) (Fin 1)"

text \<open>
  The breakdown the page renders: \<open>baseAmount\<close> as the subtotal,
  \<open>customTip ? parseFloat(customTip) : calculateTipAmount(selectedTip)\<close> as the tip and
  \<open>getTotalAmount()\<close> as the total (each shown through \<open>toFixed(2)\<close>).
\<close>

record amounts =
  subtotal :: jsnum
  tip :: jsnum
  total :: jsnum

definition derivedAmounts :: "state \<Rightarrow> amounts" where
  "derivedAmounts s =
     \<lparr> subtotal = baseAmount s,
       tip = (if customTip s \<noteq> '''' then parseFloat (customTip s)
              else calculateTipAmount s (selectedTip s)),
       total = getTotalAmount s \<rparr>"

subsection \<open>Events and reachable states\<close>

datatype event =
    SetBaseAmountText string
  | CommitBaseAmount
  | SelectPresetTip jsnum
  | SetCustomTipText string
  | CommitCustomTip

fun step :: "state \<Rightarrow> event \<Rightarrow> state" where
  "step s (SetBaseAmountText v) = handleBaseAmountChange v s"
| "step s CommitBaseAmount = handleBaseAmountBlur s"
| "step s (SelectPresetTip p) = handleTipSelect p s"
| "step s (SetCustomTipText v) = handleCustomTipChange v s"
| "step s CommitCustomTip = handleCustomTipBlur s"

text \<open>The state after a sequence of events on a freshly mounted page.\<close>

definition run :: "event list \<Rightarrow> state" where
  "run es = foldl step initialState es"

subsection \<open>Auxiliary notions for the statements\<close>

text \<open>The digits \<open>toFixed(2)\<close> prints for the integer \<open>n\<close> of hundredths.\<close>

definition fixedDigits :: "nat \<Rightarrow> string" where
  "fixedDigits n = replicate (3 - length (natToString n)) CHR ''0'' @ natToString n"

text \<open>Rounding to hundredths, half up, as \<open>toFixed(2)\<close> does on a value that is not negative.\<close>

definition round2 :: "rat \<Rightarrow> rat" where
  "round2 q = of_int \<lfloor>q * 100 + 1 / 2\<rfloor> / 100"

text \<open>
  The numbers a commit of the base amount can leave: positive infinity, or a rational of
  at least 1 that is a whole number of hundredths.
\<close>

definition committed :: "jsnum \<Rightarrow> bool" where
  "committed b = (case b of PInf \<Rightarrow> True | Fin q \<Rightarrow> 1 \<le> q \<and> round2 q = q | _ \<Rightarrow> False)"

text \<open>A number that is neither \<open>NaN\<close> nor infinite.\<close>

definition isFinite :: "jsnum \<Rightarrow> bool" where
  "isFinite x = (case x of Fin _ \<Rightarrow> True | _ \<Rightarrow> False)"

text \<open>The text after the first decimal point (empty when there is no point).\<close>

definition afterPoint :: "string \<Rightarrow> string" where
  "afterPoint c = tl (dropWhile (\<lambda>x. x \<noteq> CHR ''.'') c)"

text \<open>A preset percentage and a custom tip are not both active.\<close>

definition exclusive :: "state \<Rightarrow> bool" where
  "exclusive s = (\<not> (selectedTip s \<noteq> Fin 0 \<and> customTip s \<noteq> ''''))"

text \<open>The custom tip is empty or parses to at least 1.\<close>

definition customTipValid :: "state \<Rightarrow> bool" where
  "customTipValid s = (customTip s = '''' \<or> js_ge (parseFloat (customTip s)) (Fin 1))"

text \<open>
  The number of the base amount follows its text: it is 0 for the empty text and the
  parsed value for a text that parses.
\<close>

definition textAgrees :: "state \<Rightarrow> bool" where
  "textAgrees s =
     ((baseAmountInput s = '''' \<longrightarrow> baseAmount s = Fin 0) \<and>
      (\<not> isNaN (parseFloat (baseAmountInput s))
         \<longrightarrow> baseAmount s = parseFloat (baseAmountInput s)))"



text \<open>
  The state of the page once a base amount too large for a double has been typed and
  committed: in the code a 1 followed by 309 zeros parses to \<open>Infinity\<close>, which is
  formatted as \<open>Infinity\<close> and parsed back. The numbers of this theory do not overflow,
  so no event sequence of the model leads here; it is a state like any other for the
  statements about every state.
\<close>

definition overflowState :: state where
  "overflowState = initialState\<lparr> baseAmountInput := ''Infinity'', baseAmount := PInf \<rparr>"

subsection \<open>Exceptions\<close>

text \<open>
  The handlers contain no \<open>throw\<close>. Of the built-in functions they call,
  \<open>String.prototype.replace\<close>, \<open>RegExp.prototype.test\<close> and \<open>parseFloat\<close> return a value
  for every string, and arithmetic and comparison return a value for all numbers;
  \<open>Number.prototype.toFixed(fractionDigits)\<close> throws a \<open>RangeError\<close> unless
  \<open>0 \<le> fractionDigits \<le> 100\<close>. \<open>toFixed\<close> is that function with its exception as a
  value, and the two handlers that call it are embedded a second time with the
  exception propagated as the code would propagate it.
\<close>

datatype error = RangeError

text \<open>
  The digits of \<open>x.toFixed(f)\<close>: the integer \<open>n\<close> with \<open>n / 10^f\<close> nearest to \<open>x\<close>, padded
  with zeros to \<open>f + 1\<close> digits, and a point before the last \<open>f\<close> when \<open>f\<close> is not 0.
\<close>

definition toFixedDigits :: "nat \<Rightarrow> jsnum \<Rightarrow> string" where
  "toFixedDigits f x =
     (case x of
        NaN \<Rightarrow> ''NaN''
      | PInf \<Rightarrow> ''Infinity''
      | NInf \<Rightarrow> ''-Infinity''
      | Fin q \<Rightarrow>
          (let s = (if q < 0 then ''-'' else '''');
               n = nat \<lfloor>\<bar>q\<bar> * 10 ^ f + 1 / 2\<rfloor>;
               m = natToString n;
               m' = replicate (f + 1 - length m) CHR ''0'' @ m;
               k = length m'
           in s @ (if f = 0 then m' else take (k - f) m' @ ''.'' @ drop (k - f) m')))"

definition toFixed :: "int \<Rightarrow> jsnum \<Rightarrow> error + string" where
  "toFixed fractionDigits x =
     (if fractionDigits < 0 \<or> 100 < fractionDigits then Inl RangeError
      else Inr (toFixedDigits (nat fractionDigits) x))"

definition handleCustomTipBlur_result :: "state \<Rightarrow> error + state" where
  "handleCustomTipBlur_result s =
     (if customTip s \<noteq> '''' then
        (let parsedValue = parseFloat (customTip s) in
         if js_lt parsedValue (Fin 1) then
           Inr (s\<lparr> customTip := ''1.00'', customTipDisplay := ''$1.00'' \<rparr>)
         else
           (case toFixed 2 parsedValue of
              Inl e \<Rightarrow> Inl e
            | Inr formatted \<Rightarrow>
                Inr (s\<lparr> customTip := formatted, customTipDisplay := CHR ''$'' # formatted \<rparr>)))
      else Inr (s\<lparr> customTipDisplay := '''' \<rparr>))"

definition handleBaseAmountBlur_result :: "state \<Rightarrow> error + state" where
  "handleBaseAmountBlur_result s =
     (if baseAmountInput s = '''' \<or> isNaN (parseFloat (baseAmountInput s)) then
        Inr (s\<lparr> baseAmountInput := ''1.00'', baseAmount := Fin 1 \<rparr>)
      else
        (let parsedValue = parseFloat (baseAmountInput s) in
         if js_lt parsedValue (Fin 1) then
           Inr (s\<lparr> baseAmountInput := ''1.00'', baseAmount := Fin 1 \<rparr>)
         else
           (case toFixed 2 parsedValue of
              Inl e \<Rightarrow> Inl e
            | Inr formatted \<Rightarrow>
                Inr (s\<lparr> baseAmountInput := formatted, baseAmount := parseFloat formatted \<rparr>))))"

text \<open>
  An event with its exception, if any. The three handlers without a call of \<open>toFixed\<close>
  have nothing that can throw.
\<close>

fun step_result :: "state \<Rightarrow> event \<Rightarrow> error + state" where
  "step_result s (SetBaseAmountText v) = Inr (handleBaseAmountChange v s)"
| "step_result s CommitBaseAmount = handleBaseAmountBlur_result s"
| "step_result s (SelectPresetTip p) = Inr (handleTipSelect p s)"
| "step_result s (SetCustomTipText v) = Inr (handleCustomTipChange v s)"
| "step_result s CommitCustomTip = handleCustomTipBlur_result s"

section \<open>Digit strings, \<open>parseFloat\<close> and \<open>toFixed(2)\<close>\<close>

lemma digitVal_digitChar: "d < 10 \<Longrightarrow> digitVal (digitChar d) = d"
  by (simp add: digitVal_def digitChar_def)

lemma isDigit_digitChar: "d < 10 \<Longrightarrow> isDigit (digitChar d)"
  by (simp add: isDigit_def digitChar_def)

lemma natToString_digits: "list_all isDigit (natToString n)"
  by (induction n rule: natToString.induct)
     (subst natToString.simps, simp add: isDigit_digitChar)

lemma natToString_nonempty: "natToString n \<noteq> []"
  by (subst natToString.simps) simp




lemma digitsVal_snoc: "digitsVal (ds @ [c]) = 10 * digitsVal ds + digitVal c"
  by (simp add: digitsVal_def)

lemma digitsVal_append: "digitsVal (xs @ ys) = digitsVal xs * 10 ^ length ys + digitsVal ys"
proof (induction ys rule: rev_induct)
  case Nil
  show ?case by (simp add: digitsVal_def)
next
  case (snoc y ys)
  have "digitsVal (xs @ ys @ [y]) = 10 * digitsVal (xs @ ys) + digitVal y"
    using digitsVal_snoc [of "xs @ ys" y] by simp
  then show ?case
    by (simp add: snoc.IH digitsVal_snoc algebra_simps)
qed

lemma digitsVal_natToString: "digitsVal (natToString n) = n"
proof (induction n rule: natToString.induct)
  case (1 n)
  show ?case
  proof (cases "n < 10")
    case True
    then show ?thesis
      by (subst natToString.simps) (simp add: digitsVal_def digitVal_digitChar)
  next
    case False
    then have "digitsVal (natToString n) = 10 * digitsVal (natToString (n div 10)) + digitVal (digitChar (n mod 10))"
      by (subst natToString.simps) (simp add: digitsVal_snoc)
    with False 1 show ?thesis
      by (simp add: digitVal_digitChar)
  qed
qed

lemma digitsVal_zeros: "digitsVal (replicate k CHR ''0'' @ m) = digitsVal m"
proof -
  have "digitsVal (replicate k CHR ''0'') = 0"
    by (induction k) (simp_all add: digitsVal_def digitVal_def)
  then show ?thesis by (simp add: digitsVal_append)
qed

lemma isDigit_zero: "isDigit CHR ''0''"
  by (simp add: isDigit_def)

lemma not_isDigit_point: "\<not> isDigit CHR ''.''"
  by (simp add: isDigit_def)

lemma takeWhile_digits_point:
  "list_all isDigit ds \<Longrightarrow> takeWhile isDigit (ds @ CHR ''.'' # r) = ds"
  by (simp add: list_all_iff takeWhile_append2 not_isDigit_point)

lemma dropWhile_digits_point:
  "list_all isDigit ds \<Longrightarrow> dropWhile isDigit (ds @ CHR ''.'' # r) = CHR ''.'' # r"
  by (simp add: list_all_iff dropWhile_append2 not_isDigit_point)

lemma takeWhile_all: "list_all P xs \<Longrightarrow> takeWhile P xs = xs"
  by (simp add: list_all_iff)

lemma dropWhile_all: "list_all P xs \<Longrightarrow> dropWhile P xs = []"
  by (simp add: list_all_iff)

text \<open>A fixed-point numeral: digits, a point, two digits.\<close>

lemma unsignedDecimal_fixed:
  assumes ip: "list_all isDigit ip" "ip \<noteq> []" and fp: "list_all isDigit fp" "length fp = 2"
  shows "unsignedDecimal (ip @ CHR ''.'' # fp) = Some (of_nat (digitsVal (ip @ fp)) / 100)"
proof -
  have "unsignedDecimal (ip @ CHR ''.'' # fp)
        = Some ((of_nat (digitsVal ip) + of_nat (digitsVal fp) / 10 ^ length fp) * exponentPart [])"
    using ip fp
    by (simp add: unsignedDecimal_def takeWhile_digits_point dropWhile_digits_point
        takeWhile_all dropWhile_all)
  also have "\<dots> = Some (of_nat (digitsVal (ip @ fp)) / 100)"
    using fp by (simp add: exponentPart_def digitsVal_append field_simps)
  finally show ?thesis .
qed

lemma parseFloat_unsigned:
  assumes "u = [] \<or> isDigit (hd u) \<or> hd u = CHR ''.''"
  shows "parseFloat u = (case unsignedDecimal u of None \<Rightarrow> NaN | Some q \<Rightarrow> Fin q)"
proof (cases u)
  case Nil
  then show ?thesis by (simp add: parseFloat_def unsignedDecimal_def)
next
  case (Cons c r)
  with assms have "isDigit c \<or> c = CHR ''.''" by simp
  then have "\<not> isWhiteSpace c" "c \<noteq> CHR ''-''" "c \<noteq> CHR ''+''" "c \<noteq> CHR ''I''"
    by (auto simp: isDigit_def isWhiteSpace_def)
  then show ?thesis
    by (simp add: parseFloat_def Cons split: option.splits)
qed

lemma fixedDigits_digits: "list_all isDigit (fixedDigits n)"
  using natToString_digits [of n] by (auto simp: fixedDigits_def isDigit_zero list_all_iff)

lemma fixedDigits_length: "3 \<le> length (fixedDigits n)"
  by (simp add: fixedDigits_def)

lemma fixedDigits_val: "digitsVal (fixedDigits n) = n"
  by (simp add: fixedDigits_def digitsVal_zeros digitsVal_natToString)

lemma toFixed2_nonneg:
  "0 \<le> q \<Longrightarrow> toFixed2 (Fin q) =
     (let m = fixedDigits (nat \<lfloor>q * 100 + 1 / 2\<rfloor>)
      in take (length m - 2) m @ CHR ''.'' # drop (length m - 2) m)"
  by (simp add: toFixed2_def fixedDigits_def Let_def)

lemma parseFloat_fixed:
  "parseFloat (take (length (fixedDigits n) - 2) (fixedDigits n)
               @ CHR ''.'' # drop (length (fixedDigits n) - 2) (fixedDigits n))
   = Fin (of_nat n / 100)"
proof -
  let ?m = "fixedDigits n"
  let ?ip = "take (length ?m - 2) ?m" and ?fp = "drop (length ?m - 2) ?m"
  have len: "3 \<le> length ?m" by (rule fixedDigits_length)
  have dig: "list_all isDigit ?m" by (rule fixedDigits_digits)
  have ip: "list_all isDigit ?ip" "?ip \<noteq> []"
    using dig len by (auto simp: list_all_iff dest: in_set_takeD)
  have fp: "list_all isDigit ?fp" "length ?fp = 2"
    using dig len by (auto simp: list_all_iff dest: in_set_dropD)
  have hd: "isDigit (hd (?ip @ CHR ''.'' # ?fp))"
    using ip by (cases ?ip) auto
  have "parseFloat (?ip @ CHR ''.'' # ?fp)
        = (case unsignedDecimal (?ip @ CHR ''.'' # ?fp) of None \<Rightarrow> NaN | Some q \<Rightarrow> Fin q)"
    using hd by (intro parseFloat_unsigned) simp
  also have "\<dots> = Fin (of_nat (digitsVal (?ip @ ?fp)) / 100)"
    using unsignedDecimal_fixed [OF ip fp] by simp
  also have "?ip @ ?fp = ?m" by simp
  finally show ?thesis by (simp add: fixedDigits_val)
qed

lemma parseFloat_toFixed2:
  assumes "0 \<le> q"
  shows "parseFloat (toFixed2 (Fin q)) = Fin (round2 q)"
proof -
  have "0 \<le> \<lfloor>q * 100 + 1 / 2\<rfloor>" using assms by simp
  then have "(of_nat (nat \<lfloor>q * 100 + 1 / 2\<rfloor>) :: rat) = of_int \<lfloor>q * 100 + 1 / 2\<rfloor>"
    by simp
  then show ?thesis
    using assms by (simp add: toFixed2_nonneg Let_def parseFloat_fixed round2_def)
qed

lemma round2_ge_1: "1 \<le> q \<Longrightarrow> 1 \<le> round2 q"
proof -
  assume "1 \<le> q"
  then have "(100::int) \<le> \<lfloor>q * 100 + 1 / 2\<rfloor>" by (simp add: le_floor_iff)
  then have "(100::rat) \<le> of_int \<lfloor>q * 100 + 1 / 2\<rfloor>" by linarith
  then show ?thesis by (simp add: round2_def)
qed


lemma round2_idem: "round2 (round2 q) = round2 q"
proof -
  have "\<lfloor>(of_int \<lfloor>q * 100 + 1 / 2\<rfloor> :: rat) + 1 / 2\<rfloor> = \<lfloor>q * 100 + 1 / 2\<rfloor>"
    by (simp add: floor_unique)
  then show ?thesis by (simp add: round2_def)
qed

lemma round2_nonneg: "0 \<le> q \<Longrightarrow> 0 \<le> round2 q"
  by (simp add: round2_def)

lemma toFixed2_round2: "0 \<le> q \<Longrightarrow> toFixed2 (Fin (round2 q)) = toFixed2 (Fin q)"
proof -
  assume q: "0 \<le> q"
  have "\<lfloor>round2 q * 100 + 1 / 2\<rfloor> = \<lfloor>q * 100 + 1 / 2\<rfloor>"
    using round2_idem [of q] by (simp add: round2_def)
  then show ?thesis
    using q round2_nonneg [OF q] by (simp add: toFixed2_nonneg)
qed

section \<open>Committing the base amount\<close>

lemma toFixed2_one: "toFixed2 (Fin 1) = ''1.00''"
  by code_simp

lemma parseFloat_Infinity: "parseFloat ''Infinity'' = PInf"
  by (simp add: parseFloat_def isWhiteSpace_def signed_inf_def)

lemma parseFloat_empty: "parseFloat '''' = NaN"
  by (simp add: parseFloat_def unsignedDecimal_def)

lemma toFixed2_nonempty: "toFixed2 b \<noteq> []"
  by (cases b) (simp_all add: toFixed2_def Let_def)

lemma committed_one: "committed (Fin 1)"
  by code_simp

lemma committed_parse: "committed b \<Longrightarrow> parseFloat (toFixed2 b) = b"
  by (cases b) (simp_all add: committed_def parseFloat_toFixed2, simp add: toFixed2_def parseFloat_Infinity)

lemma committed_not_lt: "committed b \<Longrightarrow> \<not> js_lt b (Fin 1)"
  by (cases b) (simp_all add: committed_def)

lemma committed_not_NaN: "committed b \<Longrightarrow> \<not> isNaN b"
  by (cases b) (simp_all add: committed_def isNaN_def)

lemma committed_ge: "committed b \<Longrightarrow> js_ge b (Fin 1)"
  by (cases b) (simp_all add: committed_def)

text \<open>What a value that is neither \<open>NaN\<close> nor below 1 is formatted to, and parsed back.\<close>

lemma format_parse:
  assumes "\<not> isNaN x" "\<not> js_lt x (Fin 1)"
  shows "committed (parseFloat (toFixed2 x)) \<and> toFixed2 (parseFloat (toFixed2 x)) = toFixed2 x"
proof (cases x)
  case (Fin q)
  with assms have q: "1 \<le> q" by simp
  then have "parseFloat (toFixed2 (Fin q)) = Fin (round2 q)"
    by (simp add: parseFloat_toFixed2)
  with q show ?thesis
    by (simp add: Fin committed_def round2_ge_1 round2_idem toFixed2_round2)
qed (use assms in \<open>simp_all add: isNaN_def toFixed2_def parseFloat_Infinity committed_def\<close>)

lemma handleBaseAmountBlur_form:
  "\<exists>b. committed b \<and>
       handleBaseAmountBlur s = s\<lparr> baseAmountInput := toFixed2 b, baseAmount := b \<rparr>"
proof (cases "baseAmountInput s = '''' \<or> isNaN (parseFloat (baseAmountInput s))
              \<or> js_lt (parseFloat (baseAmountInput s)) (Fin 1)")
  case True
  then have "handleBaseAmountBlur s = s\<lparr> baseAmountInput := toFixed2 (Fin 1), baseAmount := Fin 1 \<rparr>"
    by (auto simp: handleBaseAmountBlur_def toFixed2_one Let_def)
  then show ?thesis using committed_one by blast
next
  case False
  let ?x = "parseFloat (baseAmountInput s)"
  from False have x: "\<not> isNaN ?x" "\<not> js_lt ?x (Fin 1)" by simp_all
  from False have "handleBaseAmountBlur s
      = s\<lparr> baseAmountInput := toFixed2 ?x, baseAmount := parseFloat (toFixed2 ?x) \<rparr>"
    by (simp add: handleBaseAmountBlur_def Let_def)
  with format_parse [OF x] show ?thesis by metis
qed

lemma handleBaseAmountBlur_committed:
  assumes "committed b"
  shows "handleBaseAmountBlur (s\<lparr> baseAmountInput := toFixed2 b, baseAmount := b \<rparr>)
         = s\<lparr> baseAmountInput := toFixed2 b, baseAmount := b \<rparr>"
  using assms
  by (simp add: handleBaseAmountBlur_def Let_def committed_parse committed_not_lt
      committed_not_NaN toFixed2_nonempty)



lemma stripNonNumeric_chars: "list_all (\<lambda>c. isDigit c \<or> c = CHR ''.'') (stripNonNumeric v)"
  by (simp add: stripNonNumeric_def list_all_iff)

lemma stripNonNumeric_id:
  "list_all (\<lambda>c. isDigit c \<or> c = CHR ''.'') v \<Longrightarrow> stripNonNumeric v = v"
  by (simp add: stripNonNumeric_def list_all_iff)




section \<open>The input filter\<close>

lemma amountPattern_regex:
  "amountPattern s =
     (\<exists>a b c. s = a @ b @ c \<and> list_all isDigit a \<and> (b = [] \<or> b = ''.'')
        \<and> list_all isDigit c \<and> length c \<le> 2)"
proof
  assume p: "amountPattern s"
  let ?a = "takeWhile isDigit s" and ?r = "dropWhile isDigit s"
  have a: "list_all isDigit ?a" by (simp add: list_all_iff) (meson set_takeWhileD)
  show "\<exists>a b c. s = a @ b @ c \<and> list_all isDigit a \<and> (b = [] \<or> b = ''.'')
        \<and> list_all isDigit c \<and> length c \<le> 2"
  proof (cases "?r \<noteq> [] \<and> hd ?r = CHR ''.''")
    case True
    then have r: "?r = ''.'' @ tl ?r" by (cases ?r) auto
    have "s = ?a @ ''.'' @ tl ?r" using r takeWhile_dropWhile_id [of isDigit s] by metis
    moreover have "list_all isDigit (tl ?r)" "length (tl ?r) \<le> 2"
      using p True by (simp_all add: amountPattern_def Let_def)
    ultimately show ?thesis using a by blast
  next
    case False
    have "s = ?a @ [] @ ?r" by simp
    moreover have "list_all isDigit ?r" "length ?r \<le> 2"
      using p False by (auto simp: amountPattern_def Let_def)
    ultimately show ?thesis using a by blast
  qed
next
  assume "\<exists>a b c. s = a @ b @ c \<and> list_all isDigit a \<and> (b = [] \<or> b = ''.'')
        \<and> list_all isDigit c \<and> length c \<le> 2"
  then obtain a b c where s: "s = a @ b @ c" and a: "list_all isDigit a"
    and b: "b = [] \<or> b = ''.''" and c: "list_all isDigit c" "length c \<le> 2"
    by blast
  from b show "amountPattern s"
  proof
    assume "b = []"
    then have "list_all isDigit s" using s a c by simp
    then show ?thesis by (simp add: amountPattern_def dropWhile_all)
  next
    assume "b = ''.''"
    then have "s = a @ CHR ''.'' # c" using s by simp
    then show ?thesis
      using a c by (simp add: amountPattern_def dropWhile_digits_point)
  qed
qed

lemma isDigit_iff: "isDigit c = (c \<in> set ''0123456789'')"
proof
  assume "isDigit c"
  then have "48 \<le> (of_char c :: nat)" "(of_char c :: nat) \<le> 57"
    by (simp_all add: isDigit_def)
  then have "(of_char c :: nat) = 48 \<or> (of_char c :: nat) = 49 \<or> (of_char c :: nat) = 50
      \<or> (of_char c :: nat) = 51 \<or> (of_char c :: nat) = 52 \<or> (of_char c :: nat) = 53
      \<or> (of_char c :: nat) = 54 \<or> (of_char c :: nat) = 55 \<or> (of_char c :: nat) = 56
      \<or> (of_char c :: nat) = 57"
    by arith
  moreover have "\<And>d. (of_char c :: nat) = of_char d \<Longrightarrow> c = d"
    by (rule of_char_eqI)
  from this [of "CHR ''0''"] this [of "CHR ''1''"] this [of "CHR ''2''"] this [of "CHR ''3''"]
    this [of "CHR ''4''"] this [of "CHR ''5''"] this [of "CHR ''6''"] this [of "CHR ''7''"]
    this [of "CHR ''8''"] this [of "CHR ''9''"]
  have "(of_char c :: nat) = 48 \<longrightarrow> c = CHR ''0''" "(of_char c :: nat) = 49 \<longrightarrow> c = CHR ''1''"
    "(of_char c :: nat) = 50 \<longrightarrow> c = CHR ''2''" "(of_char c :: nat) = 51 \<longrightarrow> c = CHR ''3''"
    "(of_char c :: nat) = 52 \<longrightarrow> c = CHR ''4''" "(of_char c :: nat) = 53 \<longrightarrow> c = CHR ''5''"
    "(of_char c :: nat) = 54 \<longrightarrow> c = CHR ''6''" "(of_char c :: nat) = 55 \<longrightarrow> c = CHR ''7''"
    "(of_char c :: nat) = 56 \<longrightarrow> c = CHR ''8''" "(of_char c :: nat) = 57 \<longrightarrow> c = CHR ''9''"
    by simp_all
  ultimately show "c \<in> set ''0123456789''"
    by auto
next
  assume "c \<in> set ''0123456789''"
  then show "isDigit c" by (auto simp: isDigit_def)
qed

lemma stripNonNumeric_filter:
  "stripNonNumeric v = filter (\<lambda>c. c \<in> set ''0123456789.'') v"
  unfolding stripNonNumeric_def
  by (rule filter_cong) (auto simp: isDigit_iff)

lemma numeric_dropWhile:
  "list_all (\<lambda>x. isDigit x \<or> x = CHR ''.'') c
   \<Longrightarrow> dropWhile isDigit c = dropWhile (\<lambda>x. x \<noteq> CHR ''.'') c"
  by (induction c) (auto simp: not_isDigit_point)

lemma numeric_digits_count:
  "list_all (\<lambda>x. isDigit x \<or> x = CHR ''.'') c
   \<Longrightarrow> list_all isDigit c = (count_list c CHR ''.'' = 0)"
  by (induction c) (auto simp: not_isDigit_point)

lemma count_list_dropWhile:
  "count_list (dropWhile (\<lambda>x. x \<noteq> a) c) a = count_list c a"
  by (induction c) auto

lemma amountPattern_numeric:
  assumes c: "list_all (\<lambda>x. isDigit x \<or> x = CHR ''.'') c"
  shows "amountPattern c = (count_list c CHR ''.'' \<le> 1 \<and> length (afterPoint c) \<le> 2)"
proof -
  let ?r = "dropWhile (\<lambda>x. x \<noteq> CHR ''.'') c"
  have r: "dropWhile isDigit c = ?r" using c by (rule numeric_dropWhile)
  have cnt: "count_list ?r CHR ''.'' = count_list c CHR ''.''" by (rule count_list_dropWhile)
  show ?thesis
  proof (cases ?r)
    case Nil
    have "count_list c CHR ''.'' = 0" using cnt unfolding Nil by simp
    moreover have "amountPattern c" unfolding amountPattern_def r Nil by simp
    moreover have "afterPoint c = []" unfolding afterPoint_def Nil by simp
    ultimately show ?thesis by simp
  next
    case (Cons x r')
    then have x: "x = CHR ''.''" using hd_dropWhile [of "\<lambda>x. x \<noteq> CHR ''.''" c] by auto
    have "set ?r \<subseteq> set c" by (rule set_dropWhileD [THEN subsetI])
    then have "list_all (\<lambda>x. isDigit x \<or> x = CHR ''.'') r'"
      using c by (auto simp: Cons list_all_iff)
    then have "list_all isDigit r' = (count_list r' CHR ''.'' = 0)"
      by (rule numeric_digits_count)
    moreover have "count_list c CHR ''.'' = Suc (count_list r' CHR ''.'')"
      using cnt by (simp add: Cons x)
    ultimately show ?thesis
      by (auto simp: amountPattern_def r afterPoint_def Cons x)
  qed
qed

lemma amountPattern_empty: "amountPattern ''''"
  by (simp add: amountPattern_def)


section \<open>Tips\<close>

lemma js_eq_Fin: "js_eq x (Fin a) = (x = Fin a)"
  by (cases x) auto

lemma tip_none:
  "customTip s = '''' \<Longrightarrow> selectedTip s = Fin 0 \<Longrightarrow> isFinite (baseAmount s)
   \<Longrightarrow> tip (derivedAmounts s) = Fin 0"
  by (cases "baseAmount s") (simp_all add: derivedAmounts_def calculateTipAmount_def isFinite_def)

section \<open>Reachable states\<close>

lemma run_snoc: "run (es @ [e]) = step (run es) e"
  by (simp add: run_def)

lemma run_Nil: "run [] = initialState"
  by (simp add: run_def)

lemma exclusive_step: "exclusive s \<Longrightarrow> exclusive (step s e)"
proof (cases e)
  case (SetBaseAmountText v)
  then show "exclusive s \<Longrightarrow> exclusive (step s e)"
    by (auto simp: exclusive_def handleBaseAmountChange_def Let_def)
next
  case CommitBaseAmount
  then show "exclusive s \<Longrightarrow> exclusive (step s e)"
    by (auto simp: exclusive_def handleBaseAmountBlur_def Let_def)
next
  case (SelectPresetTip p)
  then show "exclusive s \<Longrightarrow> exclusive (step s e)"
    by (simp add: exclusive_def handleTipSelect_def)
next
  case (SetCustomTipText v)
  then show "exclusive s \<Longrightarrow> exclusive (step s e)"
    by (auto simp: exclusive_def handleCustomTipChange_def Let_def)
next
  case CommitCustomTip
  then show "exclusive s \<Longrightarrow> exclusive (step s e)"
    by (auto simp: exclusive_def handleCustomTipBlur_def Let_def)
qed

lemma exclusive_run: "exclusive (run es)"
proof (induction es rule: rev_induct)
  case Nil
  show ?case by (simp add: run_Nil exclusive_def initialState_def)
next
  case (snoc e es)
  then show ?case by (simp add: run_snoc exclusive_step)
qed

lemma js_ge_not_lt: "js_ge x y \<Longrightarrow> \<not> js_lt x y"
  by (cases x; cases y) auto

lemma js_ge_not_NaN: "js_ge x y \<Longrightarrow> \<not> isNaN x"
  by (auto simp: isNaN_def)

lemma handleCustomTipBlur_valid:
  assumes "customTipValid s"
  shows "handleCustomTipBlur s =
     (if customTip s \<noteq> '''' then
        s\<lparr> customTip := toFixed2 (parseFloat (customTip s)),
           customTipDisplay := CHR ''$'' # toFixed2 (parseFloat (customTip s)) \<rparr>
      else s\<lparr> customTipDisplay := '''' \<rparr>)"
  using assms
  by (auto simp: customTipValid_def handleCustomTipBlur_def Let_def dest: js_ge_not_lt)

lemma customTipValid_step: "customTipValid s \<Longrightarrow> customTipValid (step s e)"
proof (cases e)
  case (SetBaseAmountText v)
  then show "customTipValid s \<Longrightarrow> customTipValid (step s e)"
    by (auto simp: customTipValid_def handleBaseAmountChange_def Let_def)
next
  case CommitBaseAmount
  then show "customTipValid s \<Longrightarrow> customTipValid (step s e)"
    by (auto simp: customTipValid_def handleBaseAmountBlur_def Let_def)
next
  case (SelectPresetTip p)
  then show "customTipValid s \<Longrightarrow> customTipValid (step s e)"
    by (simp add: customTipValid_def handleTipSelect_def)
next
  case (SetCustomTipText v)
  then show "customTipValid s \<Longrightarrow> customTipValid (step s e)"
    by (auto simp: customTipValid_def handleCustomTipChange_def Let_def)
next
  case CommitCustomTip
  assume v: "customTipValid s"
  show "customTipValid (step s e)"
  proof (cases "customTip s = ''''")
    case True
    with v show ?thesis
      by (simp add: CommitCustomTip handleCustomTipBlur_valid customTipValid_def)
  next
    case False
    with v have x: "js_ge (parseFloat (customTip s)) (Fin 1)"
      by (simp add: customTipValid_def)
    from format_parse [OF js_ge_not_NaN [OF x] js_ge_not_lt [OF x]]
    have "js_ge (parseFloat (toFixed2 (parseFloat (customTip s)))) (Fin 1)"
      by (simp add: committed_ge)
    with v False show ?thesis
      by (simp add: CommitCustomTip handleCustomTipBlur_valid customTipValid_def)
  qed
qed

lemma customTipValid_run: "customTipValid (run es)"
proof (induction es rule: rev_induct)
  case Nil
  show ?case by (simp add: run_Nil customTipValid_def initialState_def)
next
  case (snoc e es)
  then show ?case by (simp add: run_snoc customTipValid_step)
qed

lemma textAgrees_step: "textAgrees s \<Longrightarrow> textAgrees (step s e)"
proof (cases e)
  case (SetBaseAmountText v)
  then show "textAgrees s \<Longrightarrow> textAgrees (step s e)"
    by (auto simp: textAgrees_def handleBaseAmountChange_def Let_def parseFloat_empty isNaN_def)
next
  case CommitBaseAmount
  obtain b where b: "committed b"
    "handleBaseAmountBlur s = s\<lparr> baseAmountInput := toFixed2 b, baseAmount := b \<rparr>"
    using handleBaseAmountBlur_form by blast
  then show "textAgrees (step s e)"
    by (simp add: CommitBaseAmount textAgrees_def committed_parse toFixed2_nonempty)
next
  case (SelectPresetTip p)
  then show "textAgrees s \<Longrightarrow> textAgrees (step s e)"
    by (simp add: textAgrees_def handleTipSelect_def)
next
  case (SetCustomTipText v)
  then show "textAgrees s \<Longrightarrow> textAgrees (step s e)"
    by (auto simp: textAgrees_def handleCustomTipChange_def Let_def)
next
  case CommitCustomTip
  then show "textAgrees s \<Longrightarrow> textAgrees (step s e)"
    by (auto simp: textAgrees_def handleCustomTipBlur_def Let_def)
qed

lemma textAgrees_run: "textAgrees (run es)"
proof (induction es rule: rev_induct)
  case Nil
  have "parseFloat ''200.00'' = Fin 200" by code_simp
  then show ?case by (simp add: run_Nil textAgrees_def initialState_def)
next
  case (snoc e es)
  then show ?case by (simp add: run_snoc textAgrees_step)
qed

lemma js_ge_iff_not_lt: "\<not> isNaN x \<Longrightarrow> js_ge x (Fin 1) = (\<not> js_lt x (Fin 1))"
  by (cases x) (auto simp: isNaN_def)

section \<open>Exceptions\<close>

lemma toFixedDigits_2: "toFixedDigits 2 x = toFixed2 x"
  by (cases x) (simp_all add: toFixedDigits_def toFixed2_def)

lemma toFixed_2: "toFixed 2 x = Inr (toFixed2 x)"
  by (simp add: toFixed_def toFixedDigits_2)

lemma toFixed_RangeError: "toFixed 101 x = Inl RangeError"
  by (simp add: toFixed_def)

lemma handleCustomTipBlur_result: "handleCustomTipBlur_result s = Inr (handleCustomTipBlur s)"
  by (simp add: handleCustomTipBlur_result_def handleCustomTipBlur_def toFixed_2 Let_def)

lemma handleBaseAmountBlur_result: "handleBaseAmountBlur_result s = Inr (handleBaseAmountBlur s)"
  by (simp add: handleBaseAmountBlur_result_def handleBaseAmountBlur_def toFixed_2 Let_def)

lemma step_result: "step_result s e = Inr (step s e)"
  by (cases e) (simp_all add: handleCustomTipBlur_result handleBaseAmountBlur_result)

section \<open>The claims\<close>




text \<open>
  C2. Entering a custom tip text that parses below 1.00 and then calling
  \<open>commitCustomTip()\<close> should leave the custom tip clamped to \<open>1.00\<close>, shown as
  \<open>$1.00\<close>. On a fresh page the text \<open>0.50\<close> is shown as typed but never becomes the
  custom tip, so the commit finds no custom tip and clears the field: the custom tip
  and its displayed text are both empty afterwards.
\<close>

theorem commitCustomTip_below_one:
  "parseFloat ''0.50'' = Fin (1 / 2) \<and>
   customTip (handleCustomTipChange ''0.50'' initialState) = '''' \<and>
   customTipDisplay (handleCustomTipChange ''0.50'' initialState) = ''$0.50'' \<and>
   customTip (handleCustomTipBlur (handleCustomTipChange ''0.50'' initialState)) = '''' \<and>
   customTipDisplay (handleCustomTipBlur (handleCustomTipChange ''0.50'' initialState)) = ''''"
  by code_simp

text \<open>
  C3, as amended. From every state, \<open>setCustomTipText\<close> with a text whose cleaned form
  is empty clears the custom tip and its displayed text and sets the preset selection to
  none (0); the base amount and its text stay as they were.
\<close>

theorem setCustomTipText_empty:
  assumes "stripNonNumeric v = ''''"
  shows "handleCustomTipChange v s
         = s\<lparr> customTipDisplay := '''', customTip := '''', selectedTip := Fin 0 \<rparr>"
  using assms by (simp add: handleCustomTipChange_def parseFloat_empty isNaN_def)

theorem setCustomTipText_empty_witness:
  "stripNonNumeric ''a'' = '''' \<and>
   handleCustomTipChange ''a'' (run [SelectPresetTip (Fin 15)])
     = (run [SelectPresetTip (Fin 15)])
         \<lparr> customTipDisplay := '''', customTip := '''', selectedTip := Fin 0 \<rparr>"
proof -
  have h: "stripNonNumeric ''a'' = ''''" by code_simp
  from setCustomTipText_empty [OF h] h show ?thesis by simp
qed

text \<open>
  C3 as stated fails: with the preset 15 selected, typing the letter \<open>a\<close> into the
  custom tip field (cleaned form empty) changes the preset selection from 15 to 0.
\<close>

theorem setCustomTipText_empty_counterexample:
  "stripNonNumeric ''a'' = '''' \<and>
   selectedTip (run [SelectPresetTip (Fin 15)]) = Fin 15 \<and>
   selectedTip (handleCustomTipChange ''a'' (run [SelectPresetTip (Fin 15)])) = Fin 0"
  by code_simp

text \<open>
  C4. In every state reached from the initial state by a sequence of
  \<open>setBaseAmountText\<close>, \<open>commitBaseAmount\<close>, \<open>selectPresetTip\<close>, \<open>setCustomTipText\<close>
  and \<open>commitCustomTip\<close>, the preset selection and the custom tip are not both active.
  Selecting a preset clears the custom tip and its displayed text, and entering an accepted custom text that
  parses to at least 1 makes it the custom tip and clears the preset selection.
\<close>

theorem tip_selection_exclusive:
  "\<not> (selectedTip (run es) \<noteq> Fin 0 \<and> customTip (run es) \<noteq> '''')
   \<and> customTip (handleTipSelect p s) = ''''
   \<and> customTipDisplay (handleTipSelect p s) = ''''
   \<and> (amountPattern (stripNonNumeric v) \<and> js_ge (parseFloat (stripNonNumeric v)) (Fin 1)
        \<longrightarrow> customTip (handleCustomTipChange v s) = stripNonNumeric v
          \<and> selectedTip (handleCustomTipChange v s) = Fin 0)"
proof -
  have "js_ge (parseFloat (stripNonNumeric v)) (Fin 1) \<Longrightarrow> \<not> isNaN (parseFloat (stripNonNumeric v))"
    by (auto simp: isNaN_def)
  then show ?thesis
    using exclusive_run [of es]
    by (auto simp: exclusive_def handleTipSelect_def handleCustomTipChange_def Let_def)
qed

theorem tip_selection_exclusive_witness:
  "amountPattern (stripNonNumeric ''5.00'')
   \<and> js_ge (parseFloat (stripNonNumeric ''5.00'')) (Fin 1)
   \<and> selectedTip (run [SelectPresetTip (Fin 10)]) = Fin 10
   \<and> customTip (handleCustomTipChange ''5.00'' (run [SelectPresetTip (Fin 10)])) = ''5.00''
   \<and> selectedTip (handleCustomTipChange ''5.00'' (run [SelectPresetTip (Fin 10)])) = Fin 0
   \<and> customTip (handleTipSelect (Fin 10) (run [SetCustomTipText ''5.00''])) = ''''"
proof -
  have h: "amountPattern (stripNonNumeric ''5.00'')"
    "js_ge (parseFloat (stripNonNumeric ''5.00'')) (Fin 1)"
    "selectedTip (run [SelectPresetTip (Fin 10)]) = Fin 10"
    "stripNonNumeric ''5.00'' = ''5.00''"
    by code_simp+
  from tip_selection_exclusive
    [of "[]" "Fin 10" "run [SetCustomTipText ''5.00'']" "''5.00''"]
    tip_selection_exclusive
    [of "[]" "Fin 10" "run [SelectPresetTip (Fin 10)]" "''5.00''"] h
  show ?thesis by simp
qed

text \<open>
  C5, as amended. In every state the breakdown has the number of the base amount as
  subtotal; as tip the parsed custom tip when one is set, and otherwise the preset
  percentage of the base amount, which is zero when no preset is selected and the base
  amount is finite; and as total the sum of subtotal and tip. With the custom tip \<open>5.00\<close>
  the tip is 5 whatever the base amount, also when the preset 10 was selected before
  \<open>5.00\<close> was entered, which clears the preset.
\<close>

theorem derivedAmounts_breakdown:
  "subtotal (derivedAmounts s) = baseAmount s
   \<and> tip (derivedAmounts s)
       = (if customTip s \<noteq> '''' then parseFloat (customTip s)
          else js_div (js_mul (baseAmount s) (selectedTip s)) (Fin 100))
   \<and> (customTip s = '''' \<and> selectedTip s = Fin 0 \<and> isFinite (baseAmount s)
        \<longrightarrow> tip (derivedAmounts s) = Fin 0)
   \<and> total (derivedAmounts s) = js_add (subtotal (derivedAmounts s)) (tip (derivedAmounts s))
   \<and> (customTip s = ''5.00'' \<longrightarrow> tip (derivedAmounts s) = Fin 5)
   \<and> tip (derivedAmounts (handleCustomTipChange ''5.00'' (handleTipSelect (Fin 10) s))) = Fin 5
   \<and> selectedTip (handleCustomTipChange ''5.00'' (handleTipSelect (Fin 10) s)) = Fin 0"
proof -
  have five: "parseFloat ''5.00'' = Fin 5" by code_simp
  have strip: "stripNonNumeric ''5.00'' = ''5.00''" by code_simp
  have pat: "amountPattern ''5.00''" by code_simp
  have "customTip (handleCustomTipChange ''5.00'' (handleTipSelect (Fin 10) s)) = ''5.00''"
    and "selectedTip (handleCustomTipChange ''5.00'' (handleTipSelect (Fin 10) s)) = Fin 0"
    by (simp_all add: handleCustomTipChange_def Let_def strip pat five isNaN_def)
  then show ?thesis
    using tip_none [of s]
    by (simp add: derivedAmounts_def getTotalAmount_def calculateTipAmount_def five)
qed

theorem derivedAmounts_breakdown_witness:
  "customTip initialState = '''' \<and> selectedTip initialState = Fin 0
   \<and> isFinite (baseAmount initialState)
   \<and> tip (derivedAmounts initialState) = Fin 0
   \<and> total (derivedAmounts initialState) = Fin 200
   \<and> customTip (run [SetCustomTipText ''5.00'']) = ''5.00''
   \<and> tip (derivedAmounts (run [SetCustomTipText ''5.00''])) = Fin 5
   \<and> total (derivedAmounts (run [SetCustomTipText ''5.00''])) = Fin 205"
proof -
  have a: "customTip initialState = ''''" "selectedTip initialState = Fin 0"
    "isFinite (baseAmount initialState)" "baseAmount initialState = Fin 200"
    by (simp_all add: initialState_def isFinite_def)
  have b: "customTip (run [SetCustomTipText ''5.00'']) = ''5.00''"
    "baseAmount (run [SetCustomTipText ''5.00'']) = Fin 200"
    "parseFloat ''5.00'' = Fin 5"
    by code_simp+
  from derivedAmounts_breakdown [of initialState]
    derivedAmounts_breakdown [of "run [SetCustomTipText ''5.00'']"] a b
  show ?thesis by simp
qed

text \<open>
  C5 as stated fails in a state whose base amount is not finite. With the base amount
  \<open>Infinity\<close>, no custom tip and no preset selected, the tip is \<open>Infinity * 0 / 100\<close>,
  which is \<open>NaN\<close> and not zero, and so is the total.
\<close>

theorem derivedAmounts_breakdown_counterexample:
  "baseAmount overflowState = PInf
   \<and> customTip overflowState = ''''
   \<and> selectedTip overflowState = Fin 0
   \<and> tip (derivedAmounts overflowState) = NaN
   \<and> tip (derivedAmounts overflowState) \<noteq> Fin 0
   \<and> total (derivedAmounts overflowState) = NaN"
  by code_simp

text \<open>
  C6, as amended. For every offered percentage \<open>p\<close> and every state,
  \<open>selectPresetTip(p)\<close> deselects \<open>p\<close> when it is the selected one (the selection is 0
  and, when the base amount is finite, the tip is 0) and selects \<open>p\<close> otherwise; either
  way the custom tip and its displayed text are empty afterwards. Hence
  \<open>selectPresetTip(15)\<close> twice, from a state in which 15 is not the selected preset,
  returns the selection to none, with a tip of 0 when the base amount is finite.
\<close>

theorem selectPresetTip_toggle:
  assumes "p \<in> set tipPercentages"
  shows "selectedTip (handleTipSelect p s) = (if selectedTip s = p then Fin 0 else p)
       \<and> customTip (handleTipSelect p s) = ''''
       \<and> customTipDisplay (handleTipSelect p s) = ''''
       \<and> (selectedTip s = p \<and> isFinite (baseAmount s)
            \<longrightarrow> tip (derivedAmounts (handleTipSelect p s)) = Fin 0)
       \<and> (selectedTip s \<noteq> Fin 15
            \<longrightarrow> selectedTip (handleTipSelect (Fin 15) (handleTipSelect (Fin 15) s)) = Fin 0
              \<and> (isFinite (baseAmount s)
                   \<longrightarrow> tip (derivedAmounts (handleTipSelect (Fin 15) (handleTipSelect (Fin 15) s)))
                       = Fin 0))"
proof -
  from assms obtain a where p: "p = Fin a" by (auto simp: tipPercentages_def)
  have sel: "\<And>q t. selectedTip (handleTipSelect (Fin q) t)
                    = (if selectedTip t = Fin q then Fin 0 else Fin q)"
    by (simp add: handleTipSelect_def js_eq_Fin)
  have frame: "\<And>q t. customTip (handleTipSelect q t) = ''''
                 \<and> customTipDisplay (handleTipSelect q t) = ''''
                 \<and> baseAmount (handleTipSelect q t) = baseAmount t"
    by (simp add: handleTipSelect_def)
  show ?thesis
    by (simp add: p sel frame tip_none)
qed

theorem selectPresetTip_toggle_witness:
  "Fin 15 \<in> set tipPercentages \<and> selectedTip initialState \<noteq> Fin 15
   \<and> isFinite (baseAmount initialState)
   \<and> selectedTip (handleTipSelect (Fin 15) initialState) = Fin 15
   \<and> selectedTip (handleTipSelect (Fin 15) (handleTipSelect (Fin 15) initialState)) = Fin 0
   \<and> tip (derivedAmounts (handleTipSelect (Fin 15) (handleTipSelect (Fin 15) initialState)))
       = Fin 0
   \<and> selectedTip (run [SelectPresetTip (Fin 15)]) = Fin 15
   \<and> selectedTip (handleTipSelect (Fin 15) (run [SelectPresetTip (Fin 15)])) = Fin 0
   \<and> tip (derivedAmounts (handleTipSelect (Fin 15) (run [SelectPresetTip (Fin 15)]))) = Fin 0"
proof -
  have h: "Fin 15 \<in> set tipPercentages" by (simp add: tipPercentages_def)
  have i: "selectedTip initialState \<noteq> Fin 15" "isFinite (baseAmount initialState)"
    by (simp_all add: initialState_def isFinite_def)
  have j: "selectedTip (run [SelectPresetTip (Fin 15)]) = Fin 15"
    "isFinite (baseAmount (run [SelectPresetTip (Fin 15)]))"
    by code_simp+
  from selectPresetTip_toggle [OF h, of initialState]
    selectPresetTip_toggle [OF h, of "run [SelectPresetTip (Fin 15)]"] h i j
  show ?thesis by simp
qed

text \<open>
  C6 as stated fails in two places. The state after selecting 15 once has no custom
  tip, and \<open>selectPresetTip(15)\<close> twice from it ends with 15 selected and a tip of 30 on
  the base amount 200. And with the base amount \<open>Infinity\<close> and 15 selected, deselecting
  15 returns the selection to 0 but the tip is \<open>NaN\<close>, not 0.
\<close>

theorem selectPresetTip_toggle_counterexample:
  "customTip (run [SelectPresetTip (Fin 15)]) = '''' \<and>
   selectedTip
     (handleTipSelect (Fin 15) (handleTipSelect (Fin 15) (run [SelectPresetTip (Fin 15)])))
     = Fin 15 \<and>
   tip (derivedAmounts
     (handleTipSelect (Fin 15) (handleTipSelect (Fin 15) (run [SelectPresetTip (Fin 15)]))))
     = Fin 30 \<and>
   selectedTip (handleTipSelect (Fin 15) overflowState) = Fin 15 \<and>
   selectedTip (handleTipSelect (Fin 15) (handleTipSelect (Fin 15) overflowState)) = Fin 0 \<and>
   tip (derivedAmounts (handleTipSelect (Fin 15) (handleTipSelect (Fin 15) overflowState)))
     = NaN"
  by code_simp

text \<open>
  C7, as amended. In every reachable state \<open>isPayable()\<close> holds exactly when the number
  of the base amount is at least 1. When the text of the base amount is empty it is
  false, and when the text parses to a number it is false exactly when that number is
  below 1.
\<close>

theorem isPayable_iff:
  "isValidPayment (run es) = js_ge (baseAmount (run es)) (Fin 1)
   \<and> (baseAmountInput (run es) = '''' \<longrightarrow> \<not> isValidPayment (run es))
   \<and> (\<not> isNaN (parseFloat (baseAmountInput (run es)))
        \<longrightarrow> isValidPayment (run es)
            = (\<not> js_lt (parseFloat (baseAmountInput (run es))) (Fin 1)))"
  using textAgrees_run [of es]
  by (auto simp: textAgrees_def isValidPayment_def js_ge_iff_not_lt)

theorem isPayable_iff_witness:
  "baseAmountInput (run [SetBaseAmountText '''']) = ''''
   \<and> isValidPayment (run [SetBaseAmountText '''']) = False
   \<and> parseFloat (baseAmountInput (run [SetBaseAmountText ''0.99''])) = Fin (99 / 100)
   \<and> isValidPayment (run [SetBaseAmountText ''0.99'']) = False
   \<and> parseFloat (baseAmountInput (run [SetBaseAmountText ''1.''])) = Fin 1
   \<and> isValidPayment (run [SetBaseAmountText ''1.'']) = True"
proof -
  have a: "baseAmountInput (run [SetBaseAmountText '''']) = ''''"
    "parseFloat (baseAmountInput (run [SetBaseAmountText ''0.99''])) = Fin (99 / 100)"
    "parseFloat (baseAmountInput (run [SetBaseAmountText ''1.''])) = Fin 1"
    by code_simp+
  note empty = isPayable_iff [THEN conjunct2, THEN conjunct1]
  note parsed = isPayable_iff [THEN conjunct2, THEN conjunct2]
  have "\<not> isValidPayment (run [SetBaseAmountText ''''])"
    using empty [of "[SetBaseAmountText '''']"] a by simp
  moreover have "\<not> isValidPayment (run [SetBaseAmountText ''0.99''])"
    using parsed [of "[SetBaseAmountText ''0.99'']"] a by (simp add: isNaN_def)
  moreover have "isValidPayment (run [SetBaseAmountText ''1.''])"
    using parsed [of "[SetBaseAmountText ''1.'']"] a by (simp add: isNaN_def)
  ultimately show ?thesis using a by simp
qed

text \<open>
  C7 as stated fails in its second part. After the field is emptied and a point typed,
  the text is a lone point, which is not empty and does not parse below 1, yet the page
  is not payable (the number is still 0); and after a point is typed over the initial
  amount the text is the same lone point and the page is payable (the number is still
  200).
\<close>

theorem isPayable_iff_counterexample:
  "baseAmountInput (run [SetBaseAmountText '''', SetBaseAmountText ''.'']) = ''.''
   \<and> parseFloat ''.'' = NaN
   \<and> \<not> js_lt (parseFloat ''.'') (Fin 1)
   \<and> \<not> isValidPayment (run [SetBaseAmountText '''', SetBaseAmountText ''.''])
   \<and> baseAmountInput (run [SetBaseAmountText ''.'']) = ''.''
   \<and> isValidPayment (run [SetBaseAmountText ''.''])"
  by code_simp

text \<open>
  C8. \<open>commitBaseAmount()\<close> is idempotent: from every state, committing the base amount
  twice in a row leaves exactly the state that committing it once leaves (the text of the
  base amount, its number, and everything else).
\<close>

theorem commitBaseAmount_idempotent:
  "handleBaseAmountBlur (handleBaseAmountBlur s) = handleBaseAmountBlur s"
proof -
  obtain b where "committed b"
    and "handleBaseAmountBlur s = s\<lparr> baseAmountInput := toFixed2 b, baseAmount := b \<rparr>"
    using handleBaseAmountBlur_form by blast
  then show ?thesis by (simp add: handleBaseAmountBlur_committed)
qed

text \<open>
  C9. \<open>setBaseAmountText\<close> first removes every character that is not a digit or a
  point. If the cleaned text has more than one point, or more than two characters after
  its point, the state is left as it was; otherwise the cleaned text becomes the text of
  the base amount. No operation raises an error: from every state each of the five
  events ends without an exception, in the state its handler computes (the only call
  that can throw, \<open>toFixed\<close>, is made with 2 digits).
\<close>

theorem setBaseAmountText_filter:
  "stripNonNumeric v = filter (\<lambda>c. c \<in> set ''0123456789.'') v
   \<and> (1 < count_list (stripNonNumeric v) CHR ''.'' \<or> 2 < length (afterPoint (stripNonNumeric v))
        \<longrightarrow> handleBaseAmountChange v s = s)
   \<and> (count_list (stripNonNumeric v) CHR ''.'' \<le> 1 \<and> length (afterPoint (stripNonNumeric v)) \<le> 2
        \<longrightarrow> baseAmountInput (handleBaseAmountChange v s) = stripNonNumeric v)
   \<and> step_result s e = Inr (step s e)
   \<and> toFixed 2 x = Inr (toFixed2 x)"
proof -
  have p: "amountPattern (stripNonNumeric v)
           = (count_list (stripNonNumeric v) CHR ''.'' \<le> 1
              \<and> length (afterPoint (stripNonNumeric v)) \<le> 2)"
    using stripNonNumeric_chars by (rule amountPattern_numeric)
  have e: "stripNonNumeric v = '''' \<Longrightarrow> amountPattern (stripNonNumeric v)"
    by (simp add: amountPattern_def)
  have rej: "\<not> amountPattern (stripNonNumeric v) \<Longrightarrow> handleBaseAmountChange v s = s"
    using e by (auto simp: handleBaseAmountChange_def Let_def)
  have acc: "amountPattern (stripNonNumeric v)
             \<Longrightarrow> baseAmountInput (handleBaseAmountChange v s) = stripNonNumeric v"
    by (simp add: handleBaseAmountChange_def Let_def)
  show ?thesis
    using p rej acc stripNonNumeric_filter [of v] step_result [of s e] toFixed_2 [of x]
    by auto
qed

theorem setBaseAmountText_filter_witness:
  "stripNonNumeric ''$1.2.3'' = ''1.2.3''
   \<and> 1 < count_list (stripNonNumeric ''$1.2.3'') CHR ''.''
   \<and> handleBaseAmountChange ''$1.2.3'' initialState = initialState
   \<and> 2 < length (afterPoint (stripNonNumeric ''12.345''))
   \<and> handleBaseAmountChange ''12.345'' initialState = initialState
   \<and> count_list (stripNonNumeric ''x12.34'') CHR ''.'' \<le> 1
   \<and> length (afterPoint (stripNonNumeric ''x12.34'')) \<le> 2
   \<and> baseAmountInput (handleBaseAmountChange ''x12.34'' initialState) = ''12.34''
   \<and> step_result initialState CommitBaseAmount = Inr (handleBaseAmountBlur initialState)
   \<and> step_result (run [SetCustomTipText ''5'']) CommitCustomTip
       = Inr (handleCustomTipBlur (run [SetCustomTipText ''5'']))"
proof -
  have a: "stripNonNumeric ''$1.2.3'' = ''1.2.3''"
    "1 < count_list (stripNonNumeric ''$1.2.3'') CHR ''.''"
    "2 < length (afterPoint (stripNonNumeric ''12.345''))"
    "count_list (stripNonNumeric ''x12.34'') CHR ''.'' \<le> 1"
    "length (afterPoint (stripNonNumeric ''x12.34'')) \<le> 2"
    "stripNonNumeric ''x12.34'' = ''12.34''"
    by code_simp+
  from setBaseAmountText_filter [of "''$1.2.3''" initialState CommitBaseAmount]
    setBaseAmountText_filter [of "''12.345''" initialState CommitBaseAmount]
    setBaseAmountText_filter
      [of "''x12.34''" initialState CommitBaseAmount]
    setBaseAmountText_filter
      [of "''''" "run [SetCustomTipText ''5'']" CommitCustomTip] a
  show ?thesis by simp
qed

text \<open>
  C10. In every reachable state the custom tip is empty or parses to at least 1:
  \<open>setCustomTipText\<close> leaves the custom tip as it was, empties it, or sets it to a
  cleaned text that parses to at least 1. So \<open>commitCustomTip()\<close> never takes its
  clamping branch in a reachable state: it reformats the custom tip to two decimals
  when there is one and clears the displayed text when there is none.
\<close>

theorem customTip_never_below_one:
  "(customTip (run es) = '''' \<or> js_ge (parseFloat (customTip (run es))) (Fin 1))
   \<and> (customTip (handleCustomTipChange v s) = customTip s
        \<or> customTip (handleCustomTipChange v s) = ''''
        \<or> customTip (handleCustomTipChange v s) = stripNonNumeric v
           \<and> js_ge (parseFloat (stripNonNumeric v)) (Fin 1))
   \<and> \<not> (customTip (run es) \<noteq> '''' \<and> js_lt (parseFloat (customTip (run es))) (Fin 1))
   \<and> handleCustomTipBlur (run es) =
       (if customTip (run es) \<noteq> '''' then
          (run es)\<lparr> customTip := toFixed2 (parseFloat (customTip (run es))),
                    customTipDisplay := CHR ''$'' # toFixed2 (parseFloat (customTip (run es))) \<rparr>
        else (run es)\<lparr> customTipDisplay := '''' \<rparr>)"
proof -
  have v: "customTipValid (run es)" by (rule customTipValid_run)
  have 1: "customTip (run es) = '''' \<or> js_ge (parseFloat (customTip (run es))) (Fin 1)"
    using v by (simp add: customTipValid_def)
  have 2: "customTip (handleCustomTipChange v s) = customTip s
        \<or> customTip (handleCustomTipChange v s) = ''''
        \<or> customTip (handleCustomTipChange v s) = stripNonNumeric v
           \<and> js_ge (parseFloat (stripNonNumeric v)) (Fin 1)"
    by (simp add: handleCustomTipChange_def Let_def)
  have 3: "\<not> (customTip (run es) \<noteq> '''' \<and> js_lt (parseFloat (customTip (run es))) (Fin 1))"
    using 1 by (auto dest: js_ge_not_lt)
  show ?thesis
    using 1 2 3 handleCustomTipBlur_valid [OF v] by blast
qed

theorem customTip_never_below_one_witness:
  "customTip (run [SetCustomTipText ''5'', SetCustomTipText ''0.5'']) = ''5''
   \<and> customTipDisplay (run [SetCustomTipText ''5'', SetCustomTipText ''0.5'']) = ''$0.5''
   \<and> js_ge (parseFloat ''5'') (Fin 1)
   \<and> customTip (handleCustomTipBlur (run [SetCustomTipText ''5'', SetCustomTipText ''0.5'']))
       = ''5.00''
   \<and> customTipDisplay
        (handleCustomTipBlur (run [SetCustomTipText ''5'', SetCustomTipText ''0.5'']))
       = ''$5.00''"
proof -
  have a: "customTip (run [SetCustomTipText ''5'', SetCustomTipText ''0.5'']) = ''5''"
    "customTipDisplay (run [SetCustomTipText ''5'', SetCustomTipText ''0.5'']) = ''$0.5''"
    "toFixed2 (parseFloat ''5'') = ''5.00''"
    by code_simp+
  from customTip_never_below_one
    [of "[SetCustomTipText ''5'', SetCustomTipText ''0.5'']" "''5''" initialState] a
  show ?thesis by simp
qed

end
